theory Spec2Isabelle
  imports Main
begin

section \<open>Values, configuration and effects of linkedin_scheduler.py\<close>

text \<open>
  JSON-like Python values: the token dictionary, the request body and the decoded
  response bodies are built from them. \<open>JNull\<close> is Python's \<open>None\<close>.
\<close>

datatype json =
    JNull
  | JBool bool
  | JNum int
  | JStr string
  | JArr "json list"
  | JObj "(string \<times> json) list"

type_synonym dict = "(string \<times> json) list"

text \<open>
  What \<open>response.json()\<close> does: it returns the decoded body, or it raises. The two
  flags of a raised exception say whether it is an instance of \<open>json.JSONDecodeError\<close>
  and whether it is an instance of \<open>requests.exceptions.RequestException\<close>; which of
  the four combinations arises depends on the version of requests and on whether
  simplejson is installed. The string is the message.
\<close>

datatype json_outcome =
    Decoded json
  | JsonRaises bool bool string

text \<open>An HTTP response as the code reads it: status, reason, URL, text and \<open>json()\<close>.\<close>

record response =
  status_code :: nat
  reason :: string
  resp_url :: string
  resp_text :: string
  json_call :: json_outcome

text \<open>
  The exceptions the code distinguishes: \<open>requests.exceptions.RequestException\<close>
  (with its message and its optional \<open>response\<close> attribute) and every other subclass
  of \<open>Exception\<close> (with its message).
\<close>

datatype pyexc =
    RequestException string "response option"
  | OtherException string

text \<open>The request handed to \<open>linkedin.post\<close>: URL, headers, JSON body and the token
  of the session it is sent on.\<close>

record http_request =
  req_url :: string
  req_headers :: "(string \<times> string) list"
  req_json :: json
  req_token :: dict

datatype level = INFO | WARNING | ERROR | CRITICAL

text \<open>
  Everything observable the functions do, in order: log records, printed lines, and the
  calls that leave the process. \<open>HttpPost\<close> and \<open>HttpGet\<close> stand for a request that
  the session hands to the HTTP transport; a call of \<open>linkedin.post\<close> that raises before
  that leaves no event.
\<close>

datatype event =
    Log level string
  | Print string
  | HttpPost http_request
  | HttpGet string dict
  | AuthorizationUrl string
  | OpenBrowser string
  | Input string
  | FetchToken string string string

text \<open>The module globals \<open>token_info\<close> and \<open>user_urn\<close>.\<close>

record cred =
  token_info :: dict
  user_urn :: "string option"

text \<open>The module constants read from the environment, and the fixed ones.\<close>

record config =
  CLIENT_ID :: "string option"
  CLIENT_SECRET :: "string option"

definition REDIRECT_URI :: string where
  "REDIRECT_URI = ''http://localhost:8080/callback''"

definition AUTHORIZATION_URL :: string where
  "AUTHORIZATION_URL = ''https://www.linkedin.com/oauth/v2/authorization''"

definition ACCESS_TOKEN_URL :: string where
  "ACCESS_TOKEN_URL = ''https://www.linkedin.com/oauth/v2/accessToken''"

definition API_BASE_URL :: string where
  "API_BASE_URL = ''https://api.linkedin.com/v2/''"

text \<open>
  A datetime object. An aware one is given by the instant it denotes, in microseconds
  since the epoch. A naive one is given by its calendar reading, in microseconds counted
  from 1970-01-01 00:00:00 on its own clock; which instant that is depends on who reads
  it.
\<close>

datatype pydatetime = Aware int | Naive int

fun reading :: "pydatetime \<Rightarrow> int" where
  "reading (Aware us) = us"
| "reading (Naive w) = w"

text \<open>
  Built-ins of Python and its libraries whose results the code interpolates into strings
  or identifiers, or which depend on the machine:
  \<^item> \<open>hash\<close> on a string, \<open>str\<close> on a datetime, on the local rendering of an instant
    and on a JSON value, \<open>json.dumps(_, indent=2)\<close>;
  \<^item> \<open>local_seconds\<close>: the conversion of the calendar second of a naive datetime to
    seconds since the epoch in the local time zone, which \<open>timestamp()\<close> performs and
    which raises for readings it cannot convert (\<open>datetime.min\<close> is one);
  \<^item> \<open>token_type_error\<close> and \<open>token_expired_error\<close>: the message of the exception
    with which the OAuth session refuses a token of an unsupported type, or one that has
    expired, when it is asked to send a request.
\<close>

record pyenv =
  hash_str :: "string \<Rightarrow> int"
  str_datetime :: "pydatetime \<Rightarrow> string"
  str_local :: "int \<Rightarrow> string"
  str_json :: "json \<Rightarrow> string"
  json_dumps :: "json \<Rightarrow> string"
  local_seconds :: "int \<Rightarrow> pyexc + int"
  token_type_error :: "dict \<Rightarrow> string option"
  token_expired_error :: "dict \<Rightarrow> string option"

text \<open>Python truthiness of an optional string: \<open>not s\<close> holds for \<open>None\<close> and \<open>''\<close>.\<close>

definition not_str :: "string option \<Rightarrow> bool" where
  "not_str s = (case s of None \<Rightarrow> True | Some v \<Rightarrow> v = [])"

text \<open>Python truthiness of a JSON-like value.\<close>

fun truthy :: "json \<Rightarrow> bool" where
  "truthy JNull = False"
| "truthy (JBool b) = b"
| "truthy (JNum n) = (n \<noteq> 0)"
| "truthy (JStr s) = (s \<noteq> [])"
| "truthy (JArr xs) = (xs \<noteq> [])"
| "truthy (JObj kvs) = (kvs \<noteq> [])"

text \<open>\<open>d.get(key)\<close>, with \<open>None\<close> for a missing key.\<close>

definition dict_get :: "dict \<Rightarrow> string \<Rightarrow> json" where
  "dict_get d k = (case map_of d k of None \<Rightarrow> JNull | Some v \<Rightarrow> v)"

text \<open>Decimal rendering of integers, as an f-string interpolates them.\<close>

definition digit_char :: "nat \<Rightarrow> char" where
  "digit_char d = ''0123456789'' ! d"

fun str_nat :: "nat \<Rightarrow> string" where
  "str_nat n = (if n < 10 then [digit_char n] else str_nat (n div 10) @ [digit_char (n mod 10)])"

declare str_nat.simps [simp del]

definition str_int :: "int \<Rightarrow> string" where
  "str_int i = (if i < 0 then CHR ''-'' # str_nat (nat (- i)) else str_nat (nat i))"

definition quote :: string where
  "quote = [CHR 0x27]"

section \<open>The OAuth session\<close>

text \<open>
  Before \<open>OAuth2Session\<close> sends a request it attaches the token, and the client
  library raises, in this order, a \<open>ValueError\<close> for an unsupported token type, a
  \<open>ValueError\<close> with the message "Missing access token." when the access token is
  \<open>None\<close> or empty, and \<open>TokenExpiredError\<close> for an expired token. Nothing is sent
  then. \<open>add_token\<close> gives the message of that exception, or \<open>None\<close> when the token is
  attached. None of these exceptions is a \<open>RequestException\<close>. Creating the session
  (\<open>get_oauth_session\<close>) does not raise for the token dictionaries the module holds:
  the one it builds from the environment and those \<open>fetch_token\<close> returns.
\<close>

definition add_token :: "pyenv \<Rightarrow> dict \<Rightarrow> string option" where
  "add_token env tok =
     (case token_type_error env tok of
        Some m \<Rightarrow> Some m
      | None \<Rightarrow>
          if \<not> truthy (dict_get tok ''access_token'') then Some ''Missing access token.''
          else token_expired_error env tok)"

section \<open>Publisher: post_linkedin_update\<close>

text \<open>
  \<open>response.raise_for_status()\<close>: raises \<open>HTTPError\<close>, a \<open>RequestException\<close>
  carrying the response, for the statuses the source names at its other call site
  ("Raise HTTPError for bad responses (4xx or 5xx)"), and returns otherwise.
\<close>

definition http_error_msg :: "response \<Rightarrow> string" where
  "http_error_msg r =
     str_nat (status_code r)
     @ (if status_code r < 500 then '' Client Error: '' else '' Server Error: '')
     @ reason r @ '' for url: '' @ resp_url r"

definition raise_for_status :: "response \<Rightarrow> pyexc + unit" where
  "raise_for_status r =
     (if 400 \<le> status_code r \<and> status_code r < 600
      then Inl (RequestException (http_error_msg r) (Some r))
      else Inr ())"

definition post_api_url :: string where
  "post_api_url = API_BASE_URL @ ''ugcPosts''"

definition post_body :: "string \<Rightarrow> string \<Rightarrow> json" where
  "post_body urn text_content =
     JObj [(''author'', JStr urn),
           (''lifecycleState'', JStr ''PUBLISHED''),
           (''specificContent'',
              JObj [(''com.linkedin.ugc.ShareContent'',
                JObj [(''shareCommentary'', JObj [(''text'', JStr text_content)]),
                      (''shareMediaCategory'', JStr ''NONE'')])]),
           (''visibility'',
              JObj [(''com.linkedin.ugc.MemberNetworkVisibility'', JStr ''CONNECTIONS'')])]"

definition post_headers :: "(string \<times> string) list" where
  "post_headers = [(''Content-Type'', ''application/json''),
                   (''X-Restli-Protocol-Version'', ''2.0.0'')]"

definition post_request :: "cred \<Rightarrow> string \<Rightarrow> string \<Rightarrow> http_request" where
  "post_request c urn text_content =
     \<lparr>req_url = post_api_url, req_headers = post_headers,
      req_json = post_body urn text_content, req_token = token_info c\<rparr>"

text \<open>
  \<open>linkedin.post(...)\<close>: the session attaches the token or raises; only then the
  request goes to the transport \<open>post\<close>, which answers with a response or raises.
\<close>

definition session_post :: "pyenv \<Rightarrow> (http_request \<Rightarrow> pyexc + response) \<Rightarrow> http_request
    \<Rightarrow> (pyexc + response) \<times> event list" where
  "session_post env post rq =
     (case add_token env (req_token rq) of
        Some m \<Rightarrow> (Inl (OtherException m), [])
      | None \<Rightarrow> (post rq, [HttpPost rq]))"

text \<open>The body of the \<open>try\<close> block: one call of \<open>linkedin.post\<close>, then
  \<open>raise_for_status\<close>, then the success record.\<close>

definition post_try :: "pyenv \<Rightarrow> (http_request \<Rightarrow> pyexc + response) \<Rightarrow> http_request \<Rightarrow> string
    \<Rightarrow> (pyexc + bool) \<times> event list" where
  "post_try env post rq text_content =
     (case session_post env post rq of
        (Inl e, evs) \<Rightarrow> (Inl e, evs)
      | (Inr r, evs) \<Rightarrow>
          (case raise_for_status r of
             Inl e \<Rightarrow> (Inl e, evs)
           | Inr _ \<Rightarrow>
               (Inr True,
                evs @ [Log INFO (''Successfully posted update to LinkedIn: '' @ quote
                                 @ take 50 text_content @ ''...'' @ quote)])))"

text \<open>
  The inner \<open>try\<close> of the first \<open>except\<close> clause: \<open>e.response.json()\<close> is guarded
  by \<open>except json.JSONDecodeError\<close> alone, so an exception of \<open>json()\<close> that is not
  of that class leaves the clause, and with it the function.
\<close>

definition error_details :: "pyenv \<Rightarrow> response \<Rightarrow> (pyexc + unit) \<times> event list" where
  "error_details env r =
     (case json_call r of
        Decoded d \<Rightarrow> (Inr (), [Log ERROR (''API Error Details: '' @ json_dumps env d)])
      | JsonRaises is_json_error is_request_error m \<Rightarrow>
          if is_json_error then (Inr (), [Log ERROR (''Response Content: '' @ resp_text r)])
          else if is_request_error then (Inl (RequestException m None), [])
          else (Inl (OtherException m), []))"

text \<open>The two \<open>except\<close> clauses, in the order of the source.\<close>

definition post_except :: "pyenv \<Rightarrow> pyexc \<Rightarrow> (pyexc + bool) \<times> event list" where
  "post_except env e =
     (case e of
        RequestException msg resp \<Rightarrow>
          (case resp of
             None \<Rightarrow> (Inr False, [Log ERROR (''Error posting to LinkedIn: '' @ msg)])
           | Some r \<Rightarrow>
               (case error_details env r of
                  (Inl e', evs) \<Rightarrow>
                    (Inl e', Log ERROR (''Error posting to LinkedIn: '' @ msg) # evs)
                | (Inr _, evs) \<Rightarrow>
                    (Inr False, Log ERROR (''Error posting to LinkedIn: '' @ msg) # evs)))
      | OtherException msg \<Rightarrow>
          (Inr False,
           [Log ERROR (''An unexpected error occurred during posting: '' @ msg)]))"

text \<open>The record of the second \<open>except\<close> clause.\<close>

definition unexpected_msg :: "string \<Rightarrow> string" where
  "unexpected_msg m = ''An unexpected error occurred during posting: '' @ m"

definition no_token_msg :: string where
  "no_token_msg = ''No valid access token found. Please authenticate first.''"

definition no_urn_msg :: string where
  "no_urn_msg = ''User URN not set. Cannot determine where to post.''"

definition post_linkedin_update :: "pyenv \<Rightarrow> (http_request \<Rightarrow> pyexc + response) \<Rightarrow> cred
    \<Rightarrow> string \<Rightarrow> (pyexc + bool) \<times> event list" where
  "post_linkedin_update env post c text_content =
     (if token_info c = [] \<or> map_of (token_info c) ''access_token'' = None
      then (Inr False, [Log ERROR no_token_msg])
      else if not_str (user_urn c)
      then (Inr False, [Log ERROR no_urn_msg])
      else
        (case post_try env post (post_request c (the (user_urn c)) text_content) text_content of
           (Inl e, evs) \<Rightarrow> (case post_except env e of (res, evs') \<Rightarrow> (res, evs @ evs'))
         | (Inr b, evs) \<Rightarrow> (Inr b, evs)))"

text \<open>The calls of an event list that leave the process.\<close>

fun is_network :: "event \<Rightarrow> bool" where
  "is_network (HttpPost _) = True"
| "is_network (HttpGet _ _) = True"
| "is_network (FetchToken _ _ _) = True"
| "is_network _ = False"

definition network_calls :: "event list \<Rightarrow> event list" where
  "network_calls evs = filter is_network evs"

text \<open>The guards of \<open>post_linkedin_update\<close> on the credential.\<close>

definition cred_missing :: "cred \<Rightarrow> bool" where
  "cred_missing c \<longleftrightarrow>
     token_info c = [] \<or> map_of (token_info c) ''access_token'' = None \<or> not_str (user_urn c)"

text \<open>
  An absent or empty credential: the token dictionary is empty or has no
  \<open>access_token\<close>, or the access token is \<open>None\<close> or empty (the module itself creates
  the key with the value \<open>None\<close> when the environment has no token), or \<open>user_urn\<close>
  is \<open>None\<close> or empty.
\<close>

definition cred_absent :: "cred \<Rightarrow> bool" where
  "cred_absent c \<longleftrightarrow> cred_missing c \<or> \<not> truthy (dict_get (token_info c) ''access_token'')"

text \<open>A present, well-formed credential: both parts are there and the session attaches
  the token.\<close>

definition cred_well_formed :: "pyenv \<Rightarrow> cred \<Rightarrow> bool" where
  "cred_well_formed env c \<longleftrightarrow> \<not> cred_missing c \<and> add_token env (token_info c) = None"

text \<open>The handler of a \<open>RequestException\<close> can read the body of the response that came
  with it: \<open>json()\<close> returns, or raises \<open>json.JSONDecodeError\<close>.\<close>

definition body_readable :: "response \<Rightarrow> bool" where
  "body_readable r =
     (case json_call r of Decoded _ \<Rightarrow> True | JsonRaises is_json_error _ _ \<Rightarrow> is_json_error)"

definition handled :: "pyexc \<Rightarrow> bool" where
  "handled e =
     (case e of
        RequestException _ (Some r) \<Rightarrow> body_readable r
      | _ \<Rightarrow> True)"

section \<open>Authorization flow: get_profile_info and perform_oauth_flow\<close>

text \<open>
  What the flow calls outside the module: \<open>linkedin.authorization_url\<close> (the URL and the
  issued state), \<open>webbrowser.open\<close>, \<open>input\<close>, \<open>linkedin.fetch_token\<close> (token URL,
  client secret, pasted redirect URL and the issued state the session holds; it raises
  when the state of the pasted URL differs from the issued one, when the code is missing
  and when the exchange fails) and the transport behind \<open>oauth_session.get\<close>.
\<close>

record oauth_env =
  authorization_url :: "string \<times> string"
  browser_open :: "string \<Rightarrow> pyexc + bool"
  input_line :: string
  fetch_token :: "string \<Rightarrow> string \<Rightarrow> string \<Rightarrow> string \<Rightarrow> pyexc + dict"
  session_get :: "string \<Rightarrow> dict \<Rightarrow> pyexc + response"

definition exc_msg :: "pyexc \<Rightarrow> string" where
  "exc_msg e = (case e of RequestException m _ \<Rightarrow> m | OtherException m \<Rightarrow> m)"

definition profile_url :: string where
  "profile_url = API_BASE_URL @ ''me''"

text \<open>The \<open>except requests.exceptions.RequestException\<close> clause of
  \<open>get_profile_info\<close>; any other exception leaves the function.\<close>

definition profile_except :: "pyexc \<Rightarrow> (pyexc + json option) \<times> event list" where
  "profile_except e =
     (case e of
        RequestException msg resp \<Rightarrow>
          (Inr None,
           Log ERROR (''Error fetching profile info: '' @ msg)
           # (case resp of
                None \<Rightarrow> []
              | Some r \<Rightarrow> [Log ERROR (''Response Content: '' @ resp_text r)]))
      | OtherException msg \<Rightarrow> (Inl e, []))"

text \<open>The body of the \<open>try\<close> block of \<open>get_profile_info\<close>: the session attaches the
  token or raises, the transport answers or raises, then \<open>raise_for_status\<close> and
  \<open>json()\<close>.\<close>

definition profile_try :: "pyenv \<Rightarrow> (string \<Rightarrow> dict \<Rightarrow> pyexc + response) \<Rightarrow> dict
    \<Rightarrow> (pyexc + json) \<times> event list" where
  "profile_try env get tok =
     (case add_token env tok of
        Some m \<Rightarrow> (Inl (OtherException m), [])
      | None \<Rightarrow>
          (case get profile_url tok of
             Inl e \<Rightarrow> (Inl e, [HttpGet profile_url tok])
           | Inr r \<Rightarrow>
               (case raise_for_status r of
                  Inl e \<Rightarrow> (Inl e, [HttpGet profile_url tok])
                | Inr _ \<Rightarrow>
                    (case json_call r of
                       Decoded j \<Rightarrow> (Inr j, [HttpGet profile_url tok])
                     | JsonRaises is_json_error is_request_error m \<Rightarrow>
                         (Inl (if is_request_error then RequestException m None
                               else OtherException m),
                          [HttpGet profile_url tok])))))"

definition get_profile_info :: "pyenv \<Rightarrow> (string \<Rightarrow> dict \<Rightarrow> pyexc + response) \<Rightarrow> dict
    \<Rightarrow> (pyexc + json option) \<times> event list" where
  "get_profile_info env get tok =
     (case profile_try env get tok of
        (Inl e, evs) \<Rightarrow> (case profile_except e of (res, evs') \<Rightarrow> (res, evs @ evs'))
      | (Inr j, evs) \<Rightarrow> (Inr (Some j), evs))"

fun contains_str :: "string \<Rightarrow> string \<Rightarrow> bool" where
  "contains_str p [] = (p = [])"
| "contains_str p (c # cs) = (take (length p) (c # cs) = p \<or> contains_str p cs)"

text \<open>
  \<open>'id' in profile_info\<close> followed by \<open>profile_info['id']\<close>: \<open>Inr (Some v)\<close> when
  the test holds and the subscript gives \<open>v\<close>, \<open>Inr None\<close> when the test is false, and
  the \<open>TypeError\<close> that the test or the subscript raises on a value that is not a
  dictionary.
\<close>

fun id_of :: "json \<Rightarrow> pyexc + json option" where
  "id_of (JObj kvs) = Inr (map_of kvs ''id'')"
| "id_of (JArr xs) =
     (if JStr ''id'' \<in> set xs
      then Inl (OtherException ''list indices must be integers or slices, not str'')
      else Inr None)"
| "id_of (JStr s) =
     (if contains_str ''id'' s
      then Inl (OtherException ''string indices must be integers'')
      else Inr None)"
| "id_of (JNum n) = Inl (OtherException ''argument of type int is not iterable'')"
| "id_of (JBool b) = Inl (OtherException ''argument of type bool is not iterable'')"
| "id_of JNull = Inl (OtherException ''argument of type NoneType is not iterable'')"

definition newline :: string where
  "newline = [CHR 0x0A]"

definition no_client_msg :: string where
  "no_client_msg = ''Client ID or Client Secret not found in .env file. Cannot authenticate.''"

definition flow_except :: "pyexc \<Rightarrow> event" where
  "flow_except e =
     Log ERROR (''Error during token fetch or profile info retrieval: '' @ exc_msg e)"

text \<open>The events up to and including \<open>input\<close>.\<close>

definition flow_prelude :: "oauth_env \<Rightarrow> event list" where
  "flow_prelude oenv =
     (let url = fst (authorization_url oenv) in
      [AuthorizationUrl AUTHORIZATION_URL,
       Print (''Please go to this URL and authorize the application:'' @ newline @ url),
       Print (newline @ ''Opening browser...''),
       OpenBrowser url]
      @ (case browser_open oenv url of
           Inl e \<Rightarrow> [Log WARNING (''Could not open browser automatically: '' @ exc_msg e
                                  @ ''. Please copy the URL manually.'')]
         | Inr _ \<Rightarrow> [])
      @ [Input ''Paste the full redirect URL from your browser after authorizing: ''])"

definition flow_success_prints :: "pyenv \<Rightarrow> dict \<Rightarrow> string \<Rightarrow> event list" where
  "flow_success_prints env tok urn =
     [Log INFO (''Obtained user URN: '' @ urn),
      Print (newline @ ''--- Authentication Successful ---''),
      Print (''Your Access Token: '' @ str_json env (dict_get tok ''access_token'')),
      Print (''Your User URN: '' @ urn),
      Print (''RECOMMENDATION: Update your .env file with these values ''
             @ ''to avoid authenticating next time.''),
      Print (''--------------------------------'' @ newline)]"

text \<open>The test \<open>profile_info and 'id' in profile_info\<close> with the subscript that
  follows it.\<close>

definition profile_id :: "json option \<Rightarrow> pyexc + json option" where
  "profile_id profile_info =
     (case profile_info of
        None \<Rightarrow> Inr None
      | Some p \<Rightarrow> if truthy p then id_of p else Inr None)"

text \<open>The identity lookup as the flow sees it: the id of the profile, \<open>None\<close> when
  there is none, or the exception that reaches the flow's \<open>except\<close> clause.\<close>

definition identity_lookup :: "pyenv \<Rightarrow> oauth_env \<Rightarrow> dict \<Rightarrow> pyexc + json option" where
  "identity_lookup env oenv tok =
     (case fst (get_profile_info env (session_get oenv) tok) of
        Inl e \<Rightarrow> Inl e
      | Inr profile_info \<Rightarrow> profile_id profile_info)"

text \<open>
  \<open>perform_oauth_flow\<close>: the result, the globals after the call and the events. The
  assignment \<open>token_info = linkedin.fetch_token(...)\<close> takes place as soon as
  \<open>fetch_token\<close> returns (\<open>flow_exchange\<close>), before the profile is fetched;
  \<open>flow_identity\<close> is the rest of the \<open>try\<close> block, run on the globals with the new
  token, and assigns \<open>user_urn\<close> only when the profile has an id.
\<close>

definition flow_identity :: "pyenv \<Rightarrow> oauth_env \<Rightarrow> cred \<Rightarrow> dict \<Rightarrow> bool \<times> cred \<times> event list" where
  "flow_identity env oenv c1 tok =
     (case get_profile_info env (session_get oenv) tok of
        (Inl e, evs2) \<Rightarrow> (False, c1, evs2 @ [flow_except e])
      | (Inr profile_info, evs2) \<Rightarrow>
          (case profile_id profile_info of
             Inl e \<Rightarrow> (False, c1, evs2 @ [flow_except e])
           | Inr None \<Rightarrow>
               (False, c1,
                evs2 @ [Log ERROR ''Could not retrieve user URN after authentication.''])
           | Inr (Some v) \<Rightarrow>
               (True, c1\<lparr>user_urn := Some (''urn:li:person:'' @ str_json env v)\<rparr>,
                evs2 @ (flow_success_prints env tok (''urn:li:person:'' @ str_json env v)))))"

definition flow_exchange :: "config \<Rightarrow> oauth_env \<Rightarrow> pyexc + dict" where
  "flow_exchange cfg oenv =
     fetch_token oenv ACCESS_TOKEN_URL (the (CLIENT_SECRET cfg)) (input_line oenv)
       (snd (authorization_url oenv))"

definition perform_oauth_flow :: "config \<Rightarrow> oauth_env \<Rightarrow> pyenv \<Rightarrow> cred
    \<Rightarrow> bool \<times> cred \<times> event list" where
  "perform_oauth_flow cfg oenv env c =
     (if not_str (CLIENT_ID cfg) \<or> not_str (CLIENT_SECRET cfg)
      then (False, c, [Log ERROR no_client_msg])
      else if input_line oenv = []
      then (False, c,
            flow_prelude oenv @ [Log ERROR ''No redirect URL provided. Authentication failed.''])
      else
        (case flow_exchange cfg oenv of
           Inl e \<Rightarrow>
             (False, c,
              flow_prelude oenv
              @ [FetchToken ACCESS_TOKEN_URL (the (CLIENT_SECRET cfg)) (input_line oenv),
                 flow_except e])
         | Inr tok \<Rightarrow>
             (case flow_identity env oenv (c\<lparr>token_info := tok\<rparr>) tok of
                (ok, c2, evs) \<Rightarrow>
                  (ok, c2,
                   flow_prelude oenv
                   @ [FetchToken ACCESS_TOKEN_URL (the (CLIENT_SECRET cfg)) (input_line oenv),
                      Log INFO ''Successfully obtained access token.'']
                   @ evs))))"

text \<open>The flow gets as far as a successful token exchange.\<close>

definition exchanged :: "config \<Rightarrow> oauth_env \<Rightarrow> dict \<Rightarrow> bool" where
  "exchanged cfg oenv tok \<longleftrightarrow>
     \<not> not_str (CLIENT_ID cfg) \<and> \<not> not_str (CLIENT_SECRET cfg) \<and> input_line oenv \<noteq> []
     \<and> flow_exchange cfg oenv = Inr tok"

section \<open>Task runner: schedule_linkedin_post and list_scheduled_posts\<close>

text \<open>The \<open>post_time\<close> argument: a datetime object, or a value that is not one.\<close>

datatype pyarg = PyDatetime pydatetime | PyNone | PyStr string | PyInt int

fun is_datetime :: "pyarg \<Rightarrow> bool" where
  "is_datetime (PyDatetime _) = True"
| "is_datetime _ = False"

text \<open>A job of the scheduler with the attributes the module sets and reads; the run
  date and the next run time are instants.\<close>

record job =
  job_id :: string
  job_name :: string
  run_date :: int
  next_run_time :: "int option"
  job_args :: "string list"
  job_kwargs :: "(string \<times> string) list"

text \<open>
  Floats. A float has 53 significant bits, so the float nearest to a positive fraction
  \<open>p/q\<close> below \<open>2^52\<close> is \<open>m/2^k\<close>, where \<open>k\<close> is the least exponent with
  \<open>2^52 \<le> (p/q) * 2^k\<close> and \<open>m\<close> is \<open>(p/q) * 2^k\<close> rounded to the nearest integer,
  ties to the even one. Timestamps of datetime objects stay far below \<open>2^52\<close> seconds.
\<close>

definition round_half_even :: "int \<Rightarrow> int \<Rightarrow> int" where
  "round_half_even a b =
     (if 2 * (a mod b) < b then a div b
      else if b < 2 * (a mod b) then a div b + 1
      else if even (a div b) then a div b else a div b + 1)"

function scale_exp :: "int \<Rightarrow> int \<Rightarrow> nat \<Rightarrow> nat" where
  "scale_exp p q k =
     (if p \<le> 0 \<or> q * 2 ^ 52 \<le> p * 2 ^ k then k else scale_exp p q (Suc k))"
  by pat_completeness auto
termination
proof (relation "measure (\<lambda>(p, q, k). nat (q * 2 ^ 52 - p * 2 ^ k))")
  show "wf (measure (\<lambda>(p, q, k). nat (q * 2 ^ 52 - p * 2 ^ k)))" by simp
next
  fix p q :: int and k :: nat
  assume a: "\<not> (p \<le> 0 \<or> q * 2 ^ 52 \<le> p * 2 ^ k)"
  then have "0 < p * 2 ^ k" by simp
  with a show "((p, q, Suc k), (p, q, k)) \<in> measure (\<lambda>(p, q, k). nat (q * 2 ^ 52 - p * 2 ^ k))"
    by simp
qed

declare scale_exp.simps [simp del]

definition nearest_float :: "int \<Rightarrow> int \<Rightarrow> int \<times> nat" where
  "nearest_float p q = (round_half_even (p * 2 ^ scale_exp p q 0) q, scale_exp p q 0)"

text \<open>\<open>int(x)\<close> for the float \<open>x\<close> nearest to \<open>p/q\<close>: \<open>int\<close> truncates towards
  zero, and rounding is symmetric about zero.\<close>

definition float_int :: "int \<Rightarrow> int \<Rightarrow> int" where
  "float_int p q = fst (nearest_float p q) div 2 ^ snd (nearest_float p q)"

definition signed_float_int :: "int \<Rightarrow> int \<Rightarrow> int" where
  "signed_float_int p q = (if p < 0 then - float_int (- p) q else float_int p q)"

text \<open>
  \<open>int(post_time.timestamp())\<close>. For an aware datetime \<open>timestamp()\<close> is the
  difference to the epoch in microseconds divided by \<open>10^6\<close>, one correctly rounded
  division. For a naive one it is the correctly rounded sum of two floats: the local-time
  conversion of the calendar second, which may raise, and \<open>microsecond / 1e6\<close>.
\<close>

definition int_timestamp :: "pyenv \<Rightarrow> pydatetime \<Rightarrow> pyexc + int" where
  "int_timestamp env d =
     (case d of
        Aware us \<Rightarrow> Inr (signed_float_int us 1000000)
      | Naive w \<Rightarrow>
          (case local_seconds env (w div 1000000) of
             Inl e \<Rightarrow> Inl e
           | Inr s \<Rightarrow>
               (case nearest_float (w mod 1000000) 1000000 of
                  (m, k) \<Rightarrow> Inr (signed_float_int (s * 2 ^ k + m) (2 ^ k)))))"

text \<open>The whole second a datetime falls in: its exact timestamp, rounded down.\<close>

definition whole_second :: "pyenv \<Rightarrow> pydatetime \<Rightarrow> pyexc + int" where
  "whole_second env d =
     (case d of
        Aware us \<Rightarrow> Inr (us div 1000000)
      | Naive w \<Rightarrow> local_seconds env (w div 1000000))"

text \<open>The range in which a float resolves microseconds: less than \<open>2^34\<close> seconds from
  the epoch, which is the years 1425 to 2514.\<close>

definition float_exact_limit :: int where
  "float_exact_limit = 17179869184"

definition make_job_id :: "pyenv \<Rightarrow> int \<Rightarrow> string \<Rightarrow> string" where
  "make_job_id env secs text_content =
     ''linkedin_post_'' @ str_int secs @ ''_'' @ str_int (hash_str env text_content)"

text \<open>
  \<open>scheduler.add_job(..., id=job_id, replace_existing=True)\<close> on the job store of the
  running scheduler (the module starts it before it schedules anything), which holds one
  job per id: "Replace if a job with the same ID exists".
\<close>

definition add_job :: "job \<Rightarrow> job list \<Rightarrow> job list" where
  "add_job j js = filter (\<lambda>k. job_id k \<noteq> job_id j) js @ [j]"

text \<open>The instant at which the scheduler, created with \<open>timezone="UTC"\<close>, reads a run
  date: a naive one is taken as UTC.\<close>

fun run_instant :: "pydatetime \<Rightarrow> int" where
  "run_instant (Aware us) = us"
| "run_instant (Naive w) = w"

definition make_job :: "pyenv \<Rightarrow> pydatetime \<Rightarrow> int \<Rightarrow> string \<Rightarrow> job" where
  "make_job env d secs text_content =
     \<lparr>job_id = make_job_id env secs text_content,
      job_name = ''LinkedIn: '' @ take 30 text_content @ ''...'',
      run_date = run_instant d,
      next_run_time = Some (run_instant d),
      job_args = [text_content],
      job_kwargs = []\<rparr>"

definition invalid_time_msg :: string where
  "invalid_time_msg = ''Invalid post_time provided. It must be a datetime object.''"

definition past_msg :: "pyenv \<Rightarrow> pydatetime \<Rightarrow> string" where
  "past_msg env d =
     ''Scheduled time '' @ str_datetime env d
     @ '' is in the past. Posting immediately (or skipping if scheduler already started).''"

text \<open>
  \<open>schedule_linkedin_post\<close>. \<open>now\<close> is what \<open>datetime.now(post_time.tzinfo or None)\<close>
  gives, read like \<open>post_time\<close>: an instant beside an aware datetime, the local calendar
  reading beside a naive one. The result is the value returned or the exception raised
  (the function has no \<open>return\<close> with a value, so a call that returns gives \<open>None\<close>),
  the job store after the call and the log records. \<open>timestamp()\<close> is called after the
  past-time check and outside any \<open>try\<close>.
\<close>

fun schedule_linkedin_post :: "pyenv \<Rightarrow> int \<Rightarrow> pyarg \<Rightarrow> string \<Rightarrow> job list
    \<Rightarrow> (pyexc + string option) \<times> job list \<times> event list" where
  "schedule_linkedin_post env now (PyDatetime d) text_content jobs =
     (case int_timestamp env d of
        Inl e \<Rightarrow>
          (Inl e, jobs, if reading d < now then [Log WARNING (past_msg env d)] else [])
      | Inr secs \<Rightarrow>
          (Inr None,
           add_job (make_job env d secs text_content) jobs,
           (if reading d < now then [Log WARNING (past_msg env d)] else [])
           @ [Log INFO (''Scheduled post for '' @ str_datetime env d @ '': '' @ quote
                        @ take 50 text_content @ ''...'' @ quote)]))"
| "schedule_linkedin_post env now _ text_content jobs =
     (Inr None, jobs, [Log ERROR invalid_time_msg])"

declare schedule_linkedin_post.simps [simp del]

definition job_lines :: "pyenv \<Rightarrow> job \<Rightarrow> event list" where
  "job_lines env j =
     [Print (''ID: '' @ job_id j),
      Print (''  Run Time (Local): ''
             @ (case next_run_time j of Some t \<Rightarrow> str_local env t | None \<Rightarrow> ''N/A'')),
      Print (''  Content: ''
             @ (case map_of (job_kwargs j) ''text_content'' of Some v \<Rightarrow> v | None \<Rightarrow> ''N/A'')),
      Print (replicate 20 (CHR ''-''))]"

definition list_scheduled_posts :: "pyenv \<Rightarrow> job list \<Rightarrow> event list" where
  "list_scheduled_posts env jobs =
     (if jobs = [] then [Print ''No posts currently scheduled.'']
      else Print ''--- Scheduled Posts ---''
           # concat (map (job_lines env) jobs)
           @ [Print (''-----------------------'' @ newline)])"

text \<open>The job store after a call, and after submitting the same pair \<open>n\<close> times in a
  row.\<close>

definition jobs_after :: "pyenv \<Rightarrow> int \<Rightarrow> pyarg \<Rightarrow> string \<Rightarrow> job list \<Rightarrow> job list" where
  "jobs_after env now t text_content jobs =
     fst (snd (schedule_linkedin_post env now t text_content jobs))"

fun schedule_times :: "nat \<Rightarrow> pyenv \<Rightarrow> int \<Rightarrow> pyarg \<Rightarrow> string \<Rightarrow> job list \<Rightarrow> job list" where
  "schedule_times 0 env now t text_content jobs = jobs"
| "schedule_times (Suc n) env now t text_content jobs =
     schedule_times n env now t text_content
       (fst (snd (schedule_linkedin_post env now t text_content jobs)))"




text \<open>Every job of the store was built by \<open>schedule_linkedin_post\<close> from an aware
  datetime.\<close>

definition scheduled_only :: "pyenv \<Rightarrow> job list \<Rightarrow> bool" where
  "scheduled_only env jobs \<longleftrightarrow>
     list_all (\<lambda>k. k = make_job env (Aware (run_date k))
                         (signed_float_int (run_date k) 1000000) (hd (job_args k))) jobs"

section \<open>Concrete inputs\<close>

text \<open>An environment whose local time zone is UTC; like Python it cannot convert a
  naive datetime of the first day of the year 1.\<close>

definition ex_env :: pyenv where
  "ex_env = \<lparr>hash_str = (\<lambda>s. int (length s)),
             str_datetime = (\<lambda>d. str_int (reading d)),
             str_local = str_int,
             str_json = (\<lambda>j. case j of JStr s \<Rightarrow> s | _ \<Rightarrow> ''?''),
             json_dumps = (\<lambda>j. ''{}''),
             local_seconds = (\<lambda>s. if s < - 62135510400
                                   then Inl (OtherException ''year 0 is out of range'')
                                   else Inr s),
             token_type_error = (\<lambda>tok. None),
             token_expired_error = (\<lambda>tok. None)\<rparr>"

definition ex_cred :: cred where
  "ex_cred = \<lparr>token_info = [(''access_token'', JStr ''tok'')],
              user_urn = Some ''urn:li:person:abc''\<rparr>"

text \<open>The globals as the module sets them when the environment has a URN and no
  token.\<close>

definition ex_none_token :: cred where
  "ex_none_token = \<lparr>token_info = [(''access_token'', JNull)],
                    user_urn = Some ''urn:li:person:abc''\<rparr>"

definition ex_nocred :: cred where
  "ex_nocred = \<lparr>token_info = [(''access_token'', JStr ''tok'')], user_urn = None\<rparr>"

text \<open>A response with a body that is not JSON, where \<open>json()\<close> raises
  \<open>json.JSONDecodeError\<close>.\<close>

definition ex_response :: "nat \<Rightarrow> response" where
  "ex_response st = \<lparr>status_code = st, reason = ''-'', resp_url = post_api_url,
                     resp_text = ''<html>'',
                     json_call = JsonRaises True True ''Expecting value''\<rparr>"

text \<open>The same with simplejson installed: the exception of \<open>json()\<close> is a
  \<open>RequestException\<close> and not a \<open>json.JSONDecodeError\<close>.\<close>

definition ex_response_simplejson :: "nat \<Rightarrow> response" where
  "ex_response_simplejson st = (ex_response st)\<lparr>json_call := JsonRaises False True ''Expecting value''\<rparr>"

definition ex_post :: "response \<Rightarrow> http_request \<Rightarrow> pyexc + response" where
  "ex_post r rq = Inr r"


definition ex_cfg :: config where
  "ex_cfg = \<lparr>CLIENT_ID = Some ''id'', CLIENT_SECRET = Some ''secret''\<rparr>"

definition ex_nocfg :: config where
  "ex_nocfg = \<lparr>CLIENT_ID = Some ''id'', CLIENT_SECRET = None\<rparr>"

definition ex_new_token :: dict where
  "ex_new_token = [(''access_token'', JStr ''new''), (''expires_in'', JNum 5184000)]"

definition ex_oenv :: "string \<Rightarrow> (pyexc + response) \<Rightarrow> oauth_env" where
  "ex_oenv pasted profile =
     \<lparr>authorization_url = (''https://www.linkedin.com/oauth/v2/authorization?state=s1'', ''s1''),
      browser_open = (\<lambda>u. Inr True),
      input_line = pasted,
      fetch_token = (\<lambda>u secret resp st.
         if contains_str (''state='' @ st) resp then Inr ex_new_token
         else Inl (OtherException ''MismatchingStateError'')),
      session_get = (\<lambda>u tok. profile)\<rparr>"

definition ex_profile :: response where
  "ex_profile = \<lparr>status_code = 200, reason = ''OK'', resp_url = profile_url,
                 resp_text = [], json_call = Decoded (JObj [(''id'', JStr ''xyz'')])\<rparr>"

section \<open>Float timestamps truncate exactly near the epoch\<close>

lemma round_half_even_bounds:
  "a div b \<le> round_half_even a b" "round_half_even a b \<le> a div b + 1"
  by (simp_all add: round_half_even_def)

lemma round_half_even_up:
  assumes "round_half_even a b = a div b + 1"
  shows "b \<le> 2 * (a mod b)"
  using assms by (simp add: round_half_even_def split: if_splits)

lemma scale_exp_increasing: "k \<le> scale_exp p q k"
proof (induction p q k rule: scale_exp.induct)
  case (1 p q k)
  show ?case
  proof (cases "p \<le> 0 \<or> q * 2 ^ 52 \<le> p * 2 ^ k")
    case True
    then show ?thesis by (subst scale_exp.simps) simp
  next
    case False
    from "1.IH" [OF False] have "Suc k \<le> scale_exp p q (Suc k)" .
    moreover have "scale_exp p q k = scale_exp p q (Suc k)"
      using False by (subst scale_exp.simps) simp
    ultimately show ?thesis by simp
  qed
qed

lemma scale_exp_ge:
  assumes "0 < p" and "\<forall>j<n. p * 2 ^ j < q * 2 ^ 52" and "k \<le> n"
  shows "n \<le> scale_exp p q k"
  using assms
proof (induction p q k rule: scale_exp.induct)
  case (1 p q k)
  show ?case
  proof (cases "k = n")
    case True
    then show ?thesis using scale_exp_increasing [of k p q] by simp
  next
    case False
    with "1.prems" have "k < n" by simp
    with "1.prems" have stop: "\<not> (p \<le> 0 \<or> q * 2 ^ 52 \<le> p * 2 ^ k)" by force
    have eq: "scale_exp p q k = scale_exp p q (Suc k)"
      using stop by (subst scale_exp.simps) simp
    from \<open>k < n\<close> have "Suc k \<le> n" by simp
    from "1.IH" [OF stop "1.prems"(1,2) this] eq show ?thesis by simp
  qed
qed

lemma div_between:
  fixes m s K :: int
  assumes "0 < K" and "s * K \<le> m" and "m < (s + 1) * K"
  shows "m div K = s"
proof -
  have "0 \<le> m - s * K" "m - s * K < K"
    using assms by (simp_all add: algebra_simps)
  then have "(m - s * K) div K = 0" by (rule div_pos_pos_trivial)
  moreover have "(m - s * K + s * K) div K = s + (m - s * K) div K"
    using assms(1) by (subst div_mult_self1) simp_all
  ultimately show ?thesis by simp
qed

lemma float_int_exact:
  fixes p q s :: int
  assumes q: "0 < q" and s: "0 \<le> s" and lo: "s * q \<le> p" and hi: "p < 17179869184 * q"
    and gap: "q < ((s + 1) * q - p) * 1048576"
  shows "float_int p q = s"
proof (cases "p = 0")
  case True
  have "0 \<le> s * q" using s q by simp
  with lo True have "s * q = 0" by simp
  with q have "s = 0" by simp
  moreover have "scale_exp 0 q 0 = 0" by (subst scale_exp.simps) simp
  ultimately show ?thesis using True q
    by (simp add: float_int_def nearest_float_def round_half_even_def)
next
  case False
  have "0 \<le> s * q" using s q by simp
  with lo False have p: "0 < p" by simp
  define k where "k = scale_exp p q 0"
  define K :: int where "K = 2 ^ k"
  define A where "A = (p * K) div q"
  define R where "R = (p * K) mod q"
  define D where "D = (s + 1) * q - p"
  define m where "m = round_half_even (p * K) q"
  have "\<forall>j<19. p * 2 ^ j < q * 2 ^ 52"
  proof (intro allI impI)
    fix j :: nat assume "j < 19"
    then have "(2::int) ^ j \<le> 2 ^ 18" by (intro power_increasing) simp_all
    with p have "p * 2 ^ j \<le> p * 2 ^ 18" by (intro mult_left_mono) simp_all
    also have "\<dots> < (17179869184 * q) * 2 ^ 18" using hi by simp
    also have "\<dots> = q * 2 ^ 52" by simp
    finally show "p * 2 ^ j < q * 2 ^ 52" .
  qed
  from scale_exp_ge [OF p this, of 0] have "19 \<le> k" by (simp add: k_def)
  then have "(2::int) ^ 19 \<le> 2 ^ k" by (intro power_increasing) simp_all
  then have K: "524288 \<le> K" by (simp add: K_def)
  then have Kpos: "0 < K" by simp
  have D1: "1 \<le> D"
  proof (rule ccontr)
    assume "\<not> 1 \<le> D"
    then have "D \<le> 0" by simp
    then have "D * 1048576 \<le> 0" by simp
    with gap q show False by (simp add: D_def)
  qed
  have split: "p * K = q * A + R" and R0: "0 \<le> R" and Rq: "R < q"
    using q by (simp_all add: A_def R_def)
  have pK_lo: "q * (s * K) \<le> p * K"
  proof -
    have "(s * q) * K \<le> p * K" using lo Kpos by (intro mult_right_mono) simp_all
    then show ?thesis by (simp add: mult_ac)
  qed
  have pK_eq: "p * K = q * ((s + 1) * K) - D * K"
    by (simp add: D_def algebra_simps)
  have DK: "K \<le> D * K" using D1 Kpos by simp
  have A_lo: "s * K \<le> A"
  proof -
    from pK_lo split Rq have "q * (s * K) < q * (A + 1)" by (simp add: algebra_simps)
    with q have "s * K < A + 1" by (simp add: mult_less_cancel_left_pos)
    then show ?thesis by simp
  qed
  have A_hi: "A < (s + 1) * K"
  proof -
    from pK_eq split R0 DK Kpos have "q * A < q * ((s + 1) * K)" by linarith
    with q show ?thesis by (simp add: mult_less_cancel_left_pos)
  qed
  have m_lo: "s * K \<le> m"
    using A_lo round_half_even_bounds(1) [of "p * K" q] by (simp add: m_def A_def)
  have m_hi: "m < (s + 1) * K"
  proof (rule ccontr)
    assume "\<not> m < (s + 1) * K"
    with A_hi round_half_even_bounds(2) [of "p * K" q]
    have top: "A = (s + 1) * K - 1" and up: "m = A + 1"
      by (simp_all add: m_def A_def)
    from up have "q \<le> 2 * R"
      unfolding m_def A_def R_def by (rule round_half_even_up)
    moreover have "R = q - D * K"
    proof -
      from split top have "p * K = q * ((s + 1) * K - 1) + R" by simp
      then have "p * K = q * ((s + 1) * K) - q + R" by (simp add: algebra_simps)
      with pK_eq show ?thesis by linarith
    qed
    ultimately have "2 * (D * K) \<le> q" by simp
    moreover have "D * 524288 \<le> D * K" using K D1 by (intro mult_left_mono) simp_all
    ultimately show False using gap by (simp add: D_def)
  qed
  have "m div K = s" using Kpos m_lo m_hi by (rule div_between)
  then show ?thesis
    by (simp add: float_int_def nearest_float_def m_def K_def k_def)
qed

lemma aware_timestamp_exact:
  assumes "0 \<le> us" and "us < 17179869184 * 1000000"
  shows "signed_float_int us 1000000 = us div 1000000"
proof -
  define s where "s = us div 1000000"
  define t where "t = us mod 1000000"
  have r: "us = s * 1000000 + t" "0 \<le> t" "t < 1000000"
    by (simp_all add: s_def t_def)
  have "0 \<le> s" using assms(1) by (simp add: s_def)
  moreover have "s * 1000000 \<le> us" using r by simp
  moreover have "(1000000::int) < ((s + 1) * 1000000 - us) * 1048576"
  proof -
    have "(s + 1) * 1000000 - us = 1000000 - t" using r by (simp add: algebra_simps)
    with r show ?thesis by simp
  qed
  ultimately have "float_int us 1000000 = s"
    using assms(2) by (intro float_int_exact) simp_all
  with assms(1) show ?thesis by (simp add: signed_float_int_def s_def)
qed

lemma naive_timestamp_exact:
  fixes S micro :: int
  assumes S: "0 \<le> S" "S + 1 < 17179869184" and micro: "0 \<le> micro" "micro < 1000000"
  shows "(case nearest_float micro 1000000 of (m, k) \<Rightarrow> signed_float_int (S * 2 ^ k + m) (2 ^ k)) = S"
proof (cases "micro = 0")
  case True
  have "scale_exp 0 1000000 0 = 0" by (subst scale_exp.simps) simp
  then have "nearest_float 0 1000000 = (0, 0)"
    by (simp add: nearest_float_def round_half_even_def)
  moreover have "float_int S 1 = S"
    using S by (intro float_int_exact) simp_all
  ultimately show ?thesis using True S by (simp add: signed_float_int_def)
next
  case False
  with micro have mpos: "0 < micro" by simp
  define k where "k = scale_exp micro 1000000 0"
  define Q :: int where "Q = 2 ^ k"
  define m where "m = round_half_even (micro * Q) 1000000"
  have "\<forall>j<30. micro * 2 ^ j < 1000000 * 2 ^ 52"
  proof (intro allI impI)
    fix j :: nat assume "j < 30"
    then have "(2::int) ^ j \<le> 2 ^ 29" by (intro power_increasing) simp_all
    with micro have "micro * 2 ^ j \<le> micro * 2 ^ 29" by (intro mult_left_mono) simp_all
    also have "\<dots> < 1000000 * 2 ^ 29" using micro by simp
    also have "\<dots> \<le> 1000000 * 2 ^ 52" by simp
    finally show "micro * 2 ^ j < 1000000 * 2 ^ 52" .
  qed
  from scale_exp_ge [OF mpos this, of 0] have "30 \<le> k" by (simp add: k_def)
  then have "(2::int) ^ 30 \<le> 2 ^ k" by (intro power_increasing) simp_all
  then have Q: "1073741824 \<le> Q" by (simp add: Q_def)
  have r: "micro * Q = 1000000 * ((micro * Q) div 1000000) + (micro * Q) mod 1000000"
    "0 \<le> (micro * Q) mod 1000000" by simp_all
  have mQ: "0 \<le> micro * Q" "micro * Q \<le> 999999 * Q"
    using micro Q by (simp_all add: mult_right_mono)
  have m0: "0 \<le> m"
  proof -
    have "0 \<le> (micro * Q) div 1000000" using mQ(1) by (simp add: pos_imp_zdiv_nonneg_iff)
    with round_half_even_bounds(1) [of "micro * Q" 1000000] show ?thesis by (simp add: m_def)
  qed
  have m1: "1000000 * m \<le> 999999 * Q + 1000000"
  proof -
    from round_half_even_bounds(2) [of "micro * Q" 1000000]
    have "m \<le> (micro * Q) div 1000000 + 1" by (simp add: m_def)
    with r mQ(2) show ?thesis by linarith
  qed
  have "float_int (S * Q + m) Q = S"
  proof (intro float_int_exact)
    show "0 < Q" using Q by simp
    show "0 \<le> S" by (rule S)
    show "S * Q \<le> S * Q + m" using m0 by simp
    have "m \<le> Q" using m1 Q by linarith
    then have "S * Q + m \<le> (S + 1) * Q" by (simp add: algebra_simps)
    also have "\<dots> < 17179869184 * Q"
      using S(2) Q by (intro mult_strict_right_mono) simp_all
    finally show "S * Q + m < 17179869184 * Q" .
    have "(S + 1) * Q - (S * Q + m) = Q - m" by (simp add: algebra_simps)
    moreover have "Q < (Q - m) * 1048576"
    proof -
      have "(Q - m) * 1048576 = 1048576 * Q - 1048576 * m" by (simp add: algebra_simps)
      moreover have "1048576 * m < 1048575 * Q" using m1 Q by arith
      ultimately show ?thesis by simp
    qed
    ultimately show "Q < ((S + 1) * Q - (S * Q + m)) * 1048576" by simp
  qed
  moreover have "0 \<le> S * Q + m" using S(1) Q m0 by simp
  ultimately show ?thesis
    by (simp add: nearest_float_def signed_float_int_def m_def Q_def k_def)
qed

lemma signed_float_int_neg: "0 < p \<Longrightarrow> signed_float_int (- p) q = - signed_float_int p q"
  by (simp add: signed_float_int_def)

lemma int_timestamp_exact:
  assumes "whole_second env d = Inr S" and "0 \<le> S" and "S + 1 < float_exact_limit"
  shows "int_timestamp env d = Inr S"
proof (cases d)
  case (Aware us)
  with assms(1) have S: "S = us div 1000000" by (simp add: whole_second_def)
  define t where "t = us mod 1000000"
  have r: "us = S * 1000000 + t" "0 \<le> t" "t < 1000000"
    by (simp_all add: S t_def)
  from r assms(2) have "0 \<le> us" by simp
  moreover from r assms(3) have "us < 17179869184 * 1000000"
    by (simp add: float_exact_limit_def)
  ultimately have "signed_float_int us 1000000 = us div 1000000"
    by (rule aware_timestamp_exact)
  with Aware S show ?thesis by (simp add: int_timestamp_def)
next
  case (Naive w)
  with assms(1) have l: "local_seconds env (w div 1000000) = Inr S"
    by (simp add: whole_second_def)
  have "(case nearest_float (w mod 1000000) 1000000 of
           (m, k) \<Rightarrow> signed_float_int (S * 2 ^ k + m) (2 ^ k)) = S"
    using assms(2,3) by (intro naive_timestamp_exact) (simp_all add: float_exact_limit_def)
  with Naive l show ?thesis by (simp add: int_timestamp_def split: prod.splits)
qed

lemma int_timestamp_aware: "int_timestamp env (Aware us) = Inr (signed_float_int us 1000000)"
  by (simp add: int_timestamp_def)

section \<open>Theorems about the publisher\<close>




lemma error_details_readable:
  "body_readable r \<Longrightarrow> fst (error_details env r) = Inr ()"
  by (auto simp: body_readable_def error_details_def split: json_outcome.splits)

lemma post_except_handled: "handled e \<Longrightarrow> fst (post_except env e) = Inr False"
proof (cases e)
  case (RequestException msg resp)
  assume h: "handled e"
  show ?thesis
  proof (cases resp)
    case None
    with RequestException show ?thesis by (simp add: post_except_def)
  next
    case (Some r)
    with RequestException h have "body_readable r" by (simp add: handled_def)
    from error_details_readable [OF this, of env] Some RequestException show ?thesis
      by (cases "error_details env r") (simp add: post_except_def)
  qed
next
  case (OtherException msg)
  then show ?thesis by (simp add: post_except_def)
qed

lemma post_except_other:
  "post_except env (OtherException m) = (Inr False, [Log ERROR (unexpected_msg m)])"
  by (simp add: post_except_def unexpected_msg_def)

text \<open>The three ways through \<open>post_linkedin_update\<close>.\<close>

lemma post_guarded:
  assumes "cred_missing c"
  shows "post_linkedin_update env post c text_content =
           (Inr False,
            [Log ERROR (if token_info c = [] \<or> map_of (token_info c) ''access_token'' = None
                        then no_token_msg else no_urn_msg)])"
  using assms by (auto simp: cred_missing_def post_linkedin_update_def)

lemma post_refused:
  assumes "\<not> cred_missing c" and "add_token env (token_info c) = Some m"
  shows "post_linkedin_update env post c text_content = (Inr False, [Log ERROR (unexpected_msg m)])"
proof -
  have g: "token_info c \<noteq> []" "map_of (token_info c) ''access_token'' \<noteq> None"
    "\<not> not_str (user_urn c)"
    using assms(1) by (simp_all add: cred_missing_def)
  have "post_try env post (post_request c (the (user_urn c)) text_content) text_content
          = (Inl (OtherException m), [])"
    using assms(2) by (simp add: post_try_def session_post_def post_request_def)
  with g show ?thesis
    by (auto simp: post_linkedin_update_def post_except_other)
qed

lemma post_sent:
  assumes "cred_well_formed env c"
  shows "post_linkedin_update env post c text_content =
     (case post (post_request c (the (user_urn c)) text_content) of
        Inl e \<Rightarrow>
          (fst (post_except env e),
           HttpPost (post_request c (the (user_urn c)) text_content) # snd (post_except env e))
      | Inr r \<Rightarrow>
          if 400 \<le> status_code r \<and> status_code r < 600
          then (fst (post_except env (RequestException (http_error_msg r) (Some r))),
                HttpPost (post_request c (the (user_urn c)) text_content)
                # snd (post_except env (RequestException (http_error_msg r) (Some r))))
          else (Inr True,
                [HttpPost (post_request c (the (user_urn c)) text_content),
                 Log INFO (''Successfully posted update to LinkedIn: '' @ quote
                           @ take 50 text_content @ ''...'' @ quote)]))"
proof -
  have g: "token_info c \<noteq> []" "map_of (token_info c) ''access_token'' \<noteq> None"
    "\<not> not_str (user_urn c)" and t: "add_token env (token_info c) = None"
    using assms by (simp_all add: cred_well_formed_def cred_missing_def)
  have s: "session_post env post (post_request c (the (user_urn c)) text_content)
      = (post (post_request c (the (user_urn c)) text_content),
         [HttpPost (post_request c (the (user_urn c)) text_content)])"
    using t by (simp add: session_post_def post_request_def)
  show ?thesis
    using g
    by (auto simp: post_linkedin_update_def post_try_def s raise_for_status_def
        split: sum.splits prod.splits)
qed

lemma add_token_falsy:
  assumes "\<not> truthy (dict_get tok ''access_token'')"
  shows "add_token env tok =
           Some (case token_type_error env tok of Some m \<Rightarrow> m | None \<Rightarrow> ''Missing access token.'')"
  using assms by (simp add: add_token_def split: option.splits)

text \<open>
  C2. For every text, when the credential is absent or empty (the token dictionary is
  empty or has no \<open>access_token\<close>, the access token is \<open>None\<close> or empty, or
  \<open>user_urn\<close> is \<open>None\<close> or empty), \<open>post_linkedin_update\<close> returns \<open>False\<close>
  and no request leaves the process. The single record it logs tells the missing
  credential: the guard's record for a missing token or a missing URN, and for a token
  whose value is \<open>None\<close> or empty, which passes the guard, the record of the session's
  refusal, "Missing access token." unless the token type is refused first.
\<close>

theorem C2_absent_credential_no_network:
  assumes "cred_absent c"
  shows "fst (post_linkedin_update env post c text_content) = Inr False
       \<and> network_calls (snd (post_linkedin_update env post c text_content)) = []
       \<and> snd (post_linkedin_update env post c text_content) =
           [Log ERROR
             (if token_info c = [] \<or> map_of (token_info c) ''access_token'' = None
              then no_token_msg
              else if not_str (user_urn c) then no_urn_msg
              else unexpected_msg
                     (case token_type_error env (token_info c) of
                        Some m \<Rightarrow> m
                      | None \<Rightarrow> ''Missing access token.''))]"
proof (cases "cred_missing c")
  case True
  then show ?thesis
    by (auto simp: post_guarded [OF True] network_calls_def cred_missing_def)
next
  case False
  with assms have "\<not> truthy (dict_get (token_info c) ''access_token'')"
    by (simp add: cred_absent_def)
  from post_refused [OF False add_token_falsy [OF this]] False show ?thesis
    by (auto simp: network_calls_def cred_missing_def)
qed

text \<open>
  C2 at a concrete input: the token is \<open>None\<close>, as the module sets it when the
  environment has none, and the URN is present.
\<close>

theorem C2_witness:
  "cred_absent ex_none_token
   \<and> fst (post_linkedin_update ex_env (ex_post (ex_response 201)) ex_none_token ''hello'')
       = Inr False
   \<and> network_calls
        (snd (post_linkedin_update ex_env (ex_post (ex_response 201)) ex_none_token ''hello''))
       = []
   \<and> snd (post_linkedin_update ex_env (ex_post (ex_response 201)) ex_none_token ''hello'')
       = [Log ERROR (unexpected_msg ''Missing access token.'')]"
proof -
  have h: "cred_absent ex_none_token"
    by (simp add: cred_absent_def ex_none_token_def dict_get_def)
  have g: "token_info ex_none_token \<noteq> []"
    "map_of (token_info ex_none_token) ''access_token'' \<noteq> None"
    "\<not> not_str (user_urn ex_none_token)"
    "token_type_error ex_env (token_info ex_none_token) = None"
    by (simp_all add: ex_none_token_def not_str_def ex_env_def)
  from C2_absent_credential_no_network [OF h, of ex_env "ex_post (ex_response 201)" "''hello''"]
  show ?thesis using h g by (simp add: network_calls_def)
qed

lemma ex_cred_well_formed: "cred_well_formed ex_env ex_cred"
  by (simp add: cred_well_formed_def cred_missing_def ex_cred_def not_str_def add_token_def
      ex_env_def dict_get_def)








text \<open>
  As long as the handler can read the body of every error response,
  \<open>post_linkedin_update\<close> returns a boolean.
\<close>

lemma post_returns_boolean_when_handled:
  assumes "\<forall>r. post (post_request c (the (user_urn c)) text_content) = Inr r \<longrightarrow> body_readable r"
    and "\<forall>e. post (post_request c (the (user_urn c)) text_content) = Inl e \<longrightarrow> handled e"
  shows "\<exists>b. fst (post_linkedin_update env post c text_content) = Inr b"
proof (cases "cred_well_formed env c")
  case True
  have readable: "fst (post_except env (RequestException (http_error_msg r) (Some r))) = Inr False"
    if "body_readable r" for r
    using that by (intro post_except_handled) (simp add: handled_def)
  show ?thesis
    using assms readable post_except_handled [of _ env]
    by (auto simp: post_sent [OF True] split: sum.splits)
next
  case False
  show ?thesis
  proof (cases "cred_missing c")
    case True
    then show ?thesis by (auto simp: post_guarded [OF True])
  next
    case present: False
    with False obtain m where "add_token env (token_info c) = Some m"
      by (auto simp: cred_well_formed_def)
    from post_refused [OF present this] show ?thesis by auto
  qed
qed

text \<open>
  C8 on the code. The POST is answered with status 500 and a body that is not JSON, and
  \<open>json()\<close> raises an exception that is not a \<open>json.JSONDecodeError\<close>, as requests
  does when simplejson is installed. \<open>raise_for_status\<close> raises, the first \<open>except\<close>
  clause logs the error and calls \<open>e.response.json()\<close>, and the exception of that call
  leaves \<open>post_linkedin_update\<close>: no boolean is returned.
\<close>

theorem C8_handler_exception_escapes:
  "cred_well_formed ex_env ex_cred
   \<and> post_linkedin_update ex_env (ex_post (ex_response_simplejson 500)) ex_cred ''hello''
       = (Inl (RequestException ''Expecting value'' None),
          [HttpPost (post_request ex_cred ''urn:li:person:abc'' ''hello''),
           Log ERROR (''Error posting to LinkedIn: ''
                      @ http_error_msg (ex_response_simplejson 500))])"
proof -
  have u: "the (user_urn ex_cred) = ''urn:li:person:abc''"
    by (simp add: ex_cred_def)
  have s: "status_code (ex_response_simplejson 500) = 500"
    "json_call (ex_response_simplejson 500) = JsonRaises False True ''Expecting value''"
    by (simp_all add: ex_response_simplejson_def ex_response_def)
  show ?thesis
    by (simp add: post_sent [OF ex_cred_well_formed] ex_cred_well_formed ex_post_def u s
        post_except_def error_details_def)
qed

section \<open>Theorems about the authorization flow\<close>

lemma cred_update_all:
  "(c::cred)\<lparr>token_info := t, user_urn := u\<rparr> = \<lparr>token_info = t, user_urn = u\<rparr>"
  by (cases c) simp

lemma flow_identity_result:
  "(fst (flow_identity env oenv c1 tok), fst (snd (flow_identity env oenv c1 tok))) =
     (case identity_lookup env oenv tok of
        Inl e \<Rightarrow> (False, c1)
      | Inr None \<Rightarrow> (False, c1)
      | Inr (Some v) \<Rightarrow> (True, c1\<lparr>user_urn := Some (''urn:li:person:'' @ str_json env v)\<rparr>))"
  by (auto simp: flow_identity_def identity_lookup_def split: prod.splits sum.splits option.splits)

lemma flow_after_exchange:
  assumes "exchanged cfg oenv tok"
  shows "(fst (perform_oauth_flow cfg oenv env c), fst (snd (perform_oauth_flow cfg oenv env c))) =
     (case identity_lookup env oenv tok of
        Inl e \<Rightarrow> (False, c\<lparr>token_info := tok\<rparr>)
      | Inr None \<Rightarrow> (False, c\<lparr>token_info := tok\<rparr>)
      | Inr (Some v) \<Rightarrow>
          (True, \<lparr>token_info = tok, user_urn = Some (''urn:li:person:'' @ str_json env v)\<rparr>))"
proof -
  have "(fst (perform_oauth_flow cfg oenv env c), fst (snd (perform_oauth_flow cfg oenv env c)))
      = (fst (flow_identity env oenv (c\<lparr>token_info := tok\<rparr>) tok),
         fst (snd (flow_identity env oenv (c\<lparr>token_info := tok\<rparr>) tok)))"
    using assms by (simp add: exchanged_def perform_oauth_flow_def split: prod.splits)
  then show ?thesis
    by (simp add: flow_identity_result cred_update_all split: sum.splits option.splits)
qed

text \<open>
  C7. When the client identifier or the client secret is missing (\<open>None\<close> or empty),
  \<open>perform_oauth_flow\<close> returns \<open>False\<close>, leaves the globals as they were, and its
  only effect is the error record about the missing client configuration: no
  authorization URL is built and nothing is opened, read or requested.
\<close>

theorem C7_missing_client_config:
  assumes "not_str (CLIENT_ID cfg) \<or> not_str (CLIENT_SECRET cfg)"
  shows "perform_oauth_flow cfg oenv env c = (False, c, [Log ERROR no_client_msg])"
  using assms by (simp add: perform_oauth_flow_def)

text \<open>
  C7 at a concrete input: the client secret is not set.
\<close>

theorem C7_witness:
  "(not_str (CLIENT_ID ex_nocfg) \<or> not_str (CLIENT_SECRET ex_nocfg))
   \<and> perform_oauth_flow ex_nocfg (ex_oenv ''x'' (Inr ex_profile)) ex_env ex_cred
       = (False, ex_cred, [Log ERROR no_client_msg])"
proof -
  have h: "not_str (CLIENT_ID ex_nocfg) \<or> not_str (CLIENT_SECRET ex_nocfg)"
    by (simp add: ex_nocfg_def not_str_def)
  from C7_missing_client_config [OF h] h show ?thesis by simp
qed

lemma ex_exchanged:
  "exchanged ex_cfg (ex_oenv ''http://localhost:8080/callback?code=c&state=s1'' profile)
     ex_new_token"
  by (simp add: exchanged_def ex_cfg_def ex_oenv_def not_str_def flow_exchange_def)

lemma ex_new_token_attached: "add_token ex_env ex_new_token = None"
  by (simp add: add_token_def ex_env_def ex_new_token_def dict_get_def)

lemma ex_lookup_timeout:
  "identity_lookup ex_env
     (ex_oenv pasted (Inl (RequestException ''timed out'' None))) ex_new_token = Inr None"
  by (simp add: identity_lookup_def get_profile_info_def profile_try_def ex_new_token_attached
      ex_oenv_def profile_except_def profile_id_def)

lemma ex_lookup_profile:
  "identity_lookup ex_env (ex_oenv pasted (Inr ex_profile)) ex_new_token
     = Inr (Some (JStr ''xyz''))"
  by (simp add: identity_lookup_def get_profile_info_def profile_try_def ex_new_token_attached
      ex_oenv_def raise_for_status_def ex_profile_def profile_id_def)

text \<open>
  C4 as stated fails: when the token exchange succeeds and the identity lookup then
  fails, \<open>perform_oauth_flow\<close> returns \<open>False\<close> with \<open>token_info\<close> already replaced
  by the new token and \<open>user_urn\<close> still the old one.
\<close>

theorem C4_counterexample:
  "fst (perform_oauth_flow ex_cfg
          (ex_oenv ''http://localhost:8080/callback?code=c&state=s1''
             (Inl (RequestException ''timed out'' None))) ex_env ex_cred) = False
   \<and> fst (snd (perform_oauth_flow ex_cfg
          (ex_oenv ''http://localhost:8080/callback?code=c&state=s1''
             (Inl (RequestException ''timed out'' None))) ex_env ex_cred))
       = \<lparr>token_info = ex_new_token, user_urn = Some ''urn:li:person:abc''\<rparr>
   \<and> ex_cred = \<lparr>token_info = [(''access_token'', JStr ''tok'')],
                 user_urn = Some ''urn:li:person:abc''\<rparr>
   \<and> ex_new_token \<noteq> [(''access_token'', JStr ''tok'')]"
proof -
  from flow_after_exchange [OF ex_exchanged [of "Inl (RequestException ''timed out'' None)"],
      of ex_env ex_cred]
  have "(fst (perform_oauth_flow ex_cfg
          (ex_oenv ''http://localhost:8080/callback?code=c&state=s1''
             (Inl (RequestException ''timed out'' None))) ex_env ex_cred),
         fst (snd (perform_oauth_flow ex_cfg
          (ex_oenv ''http://localhost:8080/callback?code=c&state=s1''
             (Inl (RequestException ''timed out'' None))) ex_env ex_cred)))
        = (False, ex_cred\<lparr>token_info := ex_new_token\<rparr>)"
    by (simp add: ex_lookup_timeout)
  then show ?thesis by (simp add: ex_cred_def ex_new_token_def)
qed

text \<open>
  C4, amended. When \<open>perform_oauth_flow\<close> fails at or before the token exchange
  (client configuration missing, nothing pasted, or \<open>fetch_token\<close> raising, which is how
  a mismatching state surfaces), it returns \<open>False\<close> and leaves \<open>token_info\<close> and
  \<open>user_urn\<close> unchanged. When the exchange succeeds and the identity lookup fails (it
  raises, or gives no profile or no id), it returns \<open>False\<close>, \<open>token_info\<close> is the
  token just fetched and \<open>user_urn\<close> is unchanged. When the lookup gives an id, it
  returns \<open>True\<close> and both globals are replaced: \<open>token_info\<close> by the fetched token
  and \<open>user_urn\<close> by the URN built from the id.
\<close>

theorem C4_credential_after_flow:
  "((not_str (CLIENT_ID cfg) \<or> not_str (CLIENT_SECRET cfg) \<or> input_line oenv = []
       \<or> (\<exists>e. flow_exchange cfg oenv = Inl e))
      \<longrightarrow> \<not> fst (perform_oauth_flow cfg oenv env c)
          \<and> fst (snd (perform_oauth_flow cfg oenv env c)) = c)
   \<and> (\<forall>tok. exchanged cfg oenv tok
          \<and> ((\<exists>e. identity_lookup env oenv tok = Inl e) \<or> identity_lookup env oenv tok = Inr None)
      \<longrightarrow> \<not> fst (perform_oauth_flow cfg oenv env c)
          \<and> fst (snd (perform_oauth_flow cfg oenv env c)) = c\<lparr>token_info := tok\<rparr>
          \<and> user_urn (fst (snd (perform_oauth_flow cfg oenv env c))) = user_urn c)
   \<and> (\<forall>tok v. exchanged cfg oenv tok \<and> identity_lookup env oenv tok = Inr (Some v)
      \<longrightarrow> fst (perform_oauth_flow cfg oenv env c)
          \<and> fst (snd (perform_oauth_flow cfg oenv env c))
              = \<lparr>token_info = tok, user_urn = Some (''urn:li:person:'' @ str_json env v)\<rparr>)"
proof (intro conjI allI impI)
  assume "not_str (CLIENT_ID cfg) \<or> not_str (CLIENT_SECRET cfg) \<or> input_line oenv = []
       \<or> (\<exists>e. flow_exchange cfg oenv = Inl e)"
  then have "perform_oauth_flow cfg oenv env c = (False, c, snd (snd (perform_oauth_flow cfg oenv env c)))"
    by (auto simp: perform_oauth_flow_def)
  then show "\<not> fst (perform_oauth_flow cfg oenv env c)"
    and "fst (snd (perform_oauth_flow cfg oenv env c)) = c"
    by (metis fst_conv, metis fst_conv snd_conv)
next
  fix tok
  assume a: "exchanged cfg oenv tok
          \<and> ((\<exists>e. identity_lookup env oenv tok = Inl e) \<or> identity_lookup env oenv tok = Inr None)"
  then have "(fst (perform_oauth_flow cfg oenv env c), fst (snd (perform_oauth_flow cfg oenv env c)))
      = (False, c\<lparr>token_info := tok\<rparr>)"
    using flow_after_exchange [of cfg oenv tok env c] by auto
  then show "\<not> fst (perform_oauth_flow cfg oenv env c)"
    and "fst (snd (perform_oauth_flow cfg oenv env c)) = c\<lparr>token_info := tok\<rparr>"
    and "user_urn (fst (snd (perform_oauth_flow cfg oenv env c))) = user_urn c"
    by simp_all
next
  fix tok v
  assume a: "exchanged cfg oenv tok \<and> identity_lookup env oenv tok = Inr (Some v)"
  then have "(fst (perform_oauth_flow cfg oenv env c), fst (snd (perform_oauth_flow cfg oenv env c)))
      = (True, \<lparr>token_info = tok, user_urn = Some (''urn:li:person:'' @ str_json env v)\<rparr>)"
    using flow_after_exchange [of cfg oenv tok env c] by simp
  then show "fst (perform_oauth_flow cfg oenv env c)"
    and "fst (snd (perform_oauth_flow cfg oenv env c))
              = \<lparr>token_info = tok, user_urn = Some (''urn:li:person:'' @ str_json env v)\<rparr>"
    by simp_all
qed


text \<open>
  C4 at concrete inputs: a pasted URL whose state differs from the issued one leaves the
  credential unchanged; a matching one followed by a lookup that times out replaces the
  token alone; a matching one with a profile that has an id replaces both globals.
\<close>

theorem C4_witness:
  "(\<exists>e. flow_exchange ex_cfg
            (ex_oenv ''http://localhost:8080/callback?code=c&state=other'' (Inr ex_profile))
          = Inl e)
   \<and> \<not> fst (perform_oauth_flow ex_cfg
          (ex_oenv ''http://localhost:8080/callback?code=c&state=other'' (Inr ex_profile))
          ex_env ex_cred)
   \<and> fst (snd (perform_oauth_flow ex_cfg
          (ex_oenv ''http://localhost:8080/callback?code=c&state=other'' (Inr ex_profile))
          ex_env ex_cred)) = ex_cred
   \<and> exchanged ex_cfg
        (ex_oenv ''http://localhost:8080/callback?code=c&state=s1''
           (Inl (RequestException ''timed out'' None))) ex_new_token
   \<and> identity_lookup ex_env
        (ex_oenv ''http://localhost:8080/callback?code=c&state=s1''
           (Inl (RequestException ''timed out'' None))) ex_new_token = Inr None
   \<and> \<not> fst (perform_oauth_flow ex_cfg
          (ex_oenv ''http://localhost:8080/callback?code=c&state=s1''
             (Inl (RequestException ''timed out'' None))) ex_env ex_cred)
   \<and> fst (snd (perform_oauth_flow ex_cfg
          (ex_oenv ''http://localhost:8080/callback?code=c&state=s1''
             (Inl (RequestException ''timed out'' None))) ex_env ex_cred))
       = ex_cred\<lparr>token_info := ex_new_token\<rparr>
   \<and> exchanged ex_cfg
        (ex_oenv ''http://localhost:8080/callback?code=c&state=s1'' (Inr ex_profile))
        ex_new_token
   \<and> identity_lookup ex_env
        (ex_oenv ''http://localhost:8080/callback?code=c&state=s1'' (Inr ex_profile))
        ex_new_token = Inr (Some (JStr ''xyz''))
   \<and> fst (perform_oauth_flow ex_cfg
          (ex_oenv ''http://localhost:8080/callback?code=c&state=s1'' (Inr ex_profile))
          ex_env ex_cred)
   \<and> fst (snd (perform_oauth_flow ex_cfg
          (ex_oenv ''http://localhost:8080/callback?code=c&state=s1'' (Inr ex_profile))
          ex_env ex_cred))
       = \<lparr>token_info = ex_new_token, user_urn = Some ''urn:li:person:xyz''\<rparr>"
proof -
  let ?bad = "ex_oenv ''http://localhost:8080/callback?code=c&state=other'' (Inr ex_profile)"
  let ?late = "ex_oenv ''http://localhost:8080/callback?code=c&state=s1''
                 (Inl (RequestException ''timed out'' None))"
  let ?good = "ex_oenv ''http://localhost:8080/callback?code=c&state=s1'' (Inr ex_profile)"
  have h: "\<exists>e. flow_exchange ex_cfg ?bad = Inl e"
    by (simp add: flow_exchange_def ex_oenv_def ex_cfg_def)
  have j: "str_json ex_env (JStr ''xyz'') = ''xyz''" by (simp add: ex_env_def)
  note a = C4_credential_after_flow [of ex_cfg ?bad ex_env ex_cred]
  note b = C4_credential_after_flow [of ex_cfg ?late ex_env ex_cred]
  note c = C4_credential_after_flow [of ex_cfg ?good ex_env ex_cred]
  from a h have 1: "\<not> fst (perform_oauth_flow ex_cfg ?bad ex_env ex_cred)
      \<and> fst (snd (perform_oauth_flow ex_cfg ?bad ex_env ex_cred)) = ex_cred"
    by blast
  from b ex_exchanged [of "Inl (RequestException ''timed out'' None)"]
    ex_lookup_timeout [of "''http://localhost:8080/callback?code=c&state=s1''"]
  have 2: "\<not> fst (perform_oauth_flow ex_cfg ?late ex_env ex_cred)
      \<and> fst (snd (perform_oauth_flow ex_cfg ?late ex_env ex_cred))
          = ex_cred\<lparr>token_info := ex_new_token\<rparr>"
    by blast
  from c ex_exchanged [of "Inr ex_profile"]
    ex_lookup_profile [of "''http://localhost:8080/callback?code=c&state=s1''"]
  have 3: "fst (perform_oauth_flow ex_cfg ?good ex_env ex_cred)
      \<and> fst (snd (perform_oauth_flow ex_cfg ?good ex_env ex_cred))
          = \<lparr>token_info = ex_new_token,
             user_urn = Some (''urn:li:person:'' @ str_json ex_env (JStr ''xyz''))\<rparr>"
    by blast
  from 1 2 3 h ex_exchanged [of "Inl (RequestException ''timed out'' None)"]
    ex_exchanged [of "Inr ex_profile"]
    ex_lookup_timeout [of "''http://localhost:8080/callback?code=c&state=s1''"]
    ex_lookup_profile [of "''http://localhost:8080/callback?code=c&state=s1''"]
  show ?thesis unfolding j by simp
qed

section \<open>Theorems about the task runner\<close>

lemma str_int_small:
  "str_int 0 = ''0''" "str_int 2 = ''2''" "str_int 5 = ''5''" "str_int 60 = ''60''"
  "str_int (-1) = ''-1''" "str_int 60000000 = ''60000000''"
  by (simp_all add: str_int_def str_nat.simps digit_char_def)

lemma job_id_make_job [simp]:
  "job_id (make_job env d secs text_content) = make_job_id env secs text_content"
  by (simp add: make_job_def)

lemma add_job_one: "filter (\<lambda>k. job_id k = job_id j) (add_job j js) = [j]"
  by (induction js) (auto simp: add_job_def)


lemma add_job_idem: "add_job j (add_job j js) = add_job j js"
  by (induction js) (auto simp: add_job_def)

lemma add_job_same_id: "job_id j' = job_id j \<Longrightarrow> add_job j' (add_job j js) = add_job j' js"
  by (induction js) (auto simp: add_job_def)

lemma schedule_returns:
  assumes "int_timestamp env d = Inr secs"
  shows "schedule_linkedin_post env now (PyDatetime d) text_content jobs =
     (Inr None,
      add_job (make_job env d secs text_content) jobs,
      (if reading d < now then [Log WARNING (past_msg env d)] else [])
      @ [Log INFO (''Scheduled post for '' @ str_datetime env d @ '': '' @ quote
                   @ take 50 text_content @ ''...'' @ quote)])"
  using assms by (simp add: schedule_linkedin_post.simps)


lemma jobs_after_datetime:
  "int_timestamp env d = Inr secs \<Longrightarrow>
   jobs_after env now (PyDatetime d) text_content jobs
     = add_job (make_job env d secs text_content) jobs"
  by (simp add: jobs_after_def schedule_returns)

lemma schedule_times_datetime:
  assumes "int_timestamp env d = Inr secs"
  shows "schedule_times (Suc n) env now (PyDatetime d) text_content jobs
     = add_job (make_job env d secs text_content) jobs"
proof (induction n arbitrary: jobs)
  case 0
  show ?case by (simp add: schedule_returns [OF assms])
next
  case (Suc n)
  have "schedule_times (Suc (Suc n)) env now (PyDatetime d) text_content jobs
      = schedule_times (Suc n) env now (PyDatetime d) text_content
          (add_job (make_job env d secs text_content) jobs)"
    by (simp add: schedule_returns [OF assms])
  also have "\<dots> = add_job (make_job env d secs text_content)
                     (add_job (make_job env d secs text_content) jobs)"
    by (rule Suc.IH)
  finally show ?case by (simp add: add_job_idem)
qed

lemma scheduled_only_add_job:
  "scheduled_only env jobs \<Longrightarrow>
   scheduled_only env
     (add_job (make_job env (Aware us) (signed_float_int us 1000000) text_content) jobs)"
  by (auto simp: scheduled_only_def add_job_def list_all_iff make_job_def)

lemma one_task_for_pair:
  assumes "scheduled_only env jobs"
  shows "filter (\<lambda>k. run_date k = us \<and> job_args k = [text_content])
           (add_job (make_job env (Aware us) (signed_float_int us 1000000) text_content) jobs)
           = [make_job env (Aware us) (signed_float_int us 1000000) text_content]"
proof -
  let ?j = "make_job env (Aware us) (signed_float_int us 1000000) text_content"
  have "filter (\<lambda>k. run_date k = us \<and> job_args k = [text_content])
          (filter (\<lambda>k. job_id k \<noteq> job_id ?j) jobs) = []"
  proof -
    have "\<not> (run_date k = us \<and> job_args k = [text_content])"
      if "k \<in> set jobs" "job_id k \<noteq> job_id ?j" for k
    proof
      assume a: "run_date k = us \<and> job_args k = [text_content]"
      from assms that(1)
      have "k = make_job env (Aware (run_date k)) (signed_float_int (run_date k) 1000000)
                  (hd (job_args k))"
        by (simp add: scheduled_only_def list_all_iff)
      with a have "k = ?j" by simp
      with that(2) show False by simp
    qed
    then show ?thesis by (auto simp: filter_empty_conv)
  qed
  then show ?thesis
    by (simp add: add_job_def make_job_def)
qed

text \<open>
  Repeated submission: from a store filled by \<open>schedule_linkedin_post\<close>, submitting the
  same aware datetime and text once or more leaves exactly one job with that run date
  and that text.
\<close>

lemma schedule_repeated_one_task:
  assumes "scheduled_only env jobs"
  shows "filter (\<lambda>k. run_date k = us \<and> job_args k = [text_content])
           (schedule_times (Suc n) env now (PyDatetime (Aware us)) text_content jobs)
         = [make_job env (Aware us) (signed_float_int us 1000000) text_content]"
  by (simp only: schedule_times_datetime [OF int_timestamp_aware] one_task_for_pair [OF assms])

text \<open>
  The content line of the listing reads \<open>job.kwargs\<close>, which is empty for a job added
  with \<open>args=[text_content]\<close>: the line is the default \<open>N/A\<close> whatever the text.
\<close>

lemma listing_content_line:
  "job_lines env (make_job env d secs text_content) ! 2 = Print ''  Content: N/A''"
  by (simp add: job_lines_def make_job_def eval_nat_numeral)

lemma ex_timestamp_60: "int_timestamp ex_env (Aware 60000000) = Inr 60"
  by (rule int_timestamp_exact) (simp_all add: whole_second_def float_exact_limit_def)


text \<open>
  C1 on the code. Submitting the pair (60 s after the epoch, \<open>hello\<close>) twice leaves one
  job, as C1 says, but the listing does not display its text: it prints the identifier,
  the run time and \<open>Content: N/A\<close>.
\<close>

theorem C1_listing_shows_no_content:
  "schedule_times 2 ex_env 0 (PyDatetime (Aware 60000000)) ''hello'' []
     = [make_job ex_env (Aware 60000000) 60 ''hello'']
   \<and> list_scheduled_posts ex_env
       (schedule_times 2 ex_env 0 (PyDatetime (Aware 60000000)) ''hello'' [])
     = [Print ''--- Scheduled Posts ---'',
        Print ''ID: linkedin_post_60_5'',
        Print ''  Run Time (Local): 60000000'',
        Print ''  Content: N/A'',
        Print ''--------------------'',
        Print (''-----------------------'' @ newline)]"
proof -
  have i: "make_job_id ex_env 60 ''hello'' = ''linkedin_post_60_5''"
    by (simp add: make_job_id_def ex_env_def str_int_small)
  have l: "str_local ex_env 60000000 = ''60000000''"
    by (simp add: ex_env_def str_int_small)
  have "schedule_times (Suc (Suc 0)) ex_env 0 (PyDatetime (Aware 60000000)) ''hello'' []
      = add_job (make_job ex_env (Aware 60000000) 60 ''hello'') []"
    by (rule schedule_times_datetime [OF ex_timestamp_60])
  then have s: "schedule_times 2 ex_env 0 (PyDatetime (Aware 60000000)) ''hello'' []
      = [make_job ex_env (Aware 60000000) 60 ''hello'']"
    by (simp add: eval_nat_numeral add_job_def)
  show ?thesis
    unfolding s
    by (simp add: list_scheduled_posts_def job_lines_def make_job_def i l eval_nat_numeral)
qed

text \<open>
  C10. Called with a \<open>post_time\<close> that is not a datetime object,
  \<open>schedule_linkedin_post\<close> logs the error and returns \<open>None\<close> with the job store
  unchanged.
\<close>

theorem C10_non_datetime_rejected:
  assumes "\<not> is_datetime a"
  shows "schedule_linkedin_post env now a text_content jobs
           = (Inr None, jobs, [Log ERROR invalid_time_msg])"
  using assms by (cases a) (simp_all add: schedule_linkedin_post.simps)

text \<open>
  C10 at a concrete input: a string as \<open>post_time\<close>, on a store that holds one job.
\<close>

theorem C10_witness:
  "\<not> is_datetime (PyStr ''2025-01-01 10:00'')
   \<and> schedule_linkedin_post ex_env 0 (PyStr ''2025-01-01 10:00'') ''hello''
        [make_job ex_env (Aware 60000000) 60 ''first'']
       = (Inr None, [make_job ex_env (Aware 60000000) 60 ''first''], [Log ERROR invalid_time_msg])"
proof -
  have h: "\<not> is_datetime (PyStr ''2025-01-01 10:00'')" by simp
  from C10_non_datetime_rejected [OF h] h show ?thesis by blast
qed






lemma ex_timestamp_before_epoch:
  "int_timestamp ex_env (Aware (- 1000000)) = Inr (- 1)"
  "int_timestamp ex_env (Aware (- 500000)) = Inr 0"
proof -
  have a: "signed_float_int 1000000 1000000 = 1000000 div 1000000"
    and b: "signed_float_int 500000 1000000 = 500000 div 1000000"
    by (rule aware_timestamp_exact; simp)+
  from a show "int_timestamp ex_env (Aware (- 1000000)) = Inr (- 1)"
    using signed_float_int_neg [of 1000000 1000000] by (simp add: int_timestamp_aware)
  from b show "int_timestamp ex_env (Aware (- 500000)) = Inr 0"
    using signed_float_int_neg [of 500000 1000000] by (simp add: int_timestamp_aware)
qed

lemma ex_timestamp_3000:
  "int_timestamp ex_env (Aware 32503680000000000) = Inr 32503680000"
  "int_timestamp ex_env (Aware 32503680000999999) = Inr 32503680001"
proof -
  have a: "scale_exp 32503680000000000 1000000 0 = 18"
    and b: "scale_exp 32503680000999999 1000000 0 = 18"
    by (simp_all add: scale_exp.simps)
  show "int_timestamp ex_env (Aware 32503680000000000) = Inr 32503680000"
    by (simp add: int_timestamp_def signed_float_int_def float_int_def nearest_float_def a
        round_half_even_def)
  show "int_timestamp ex_env (Aware 32503680000999999) = Inr 32503680001"
    by (simp add: int_timestamp_def signed_float_int_def float_int_def nearest_float_def b
        round_half_even_def)
qed

text \<open>
  C9 as stated fails at both ends. Before the epoch truncation towards zero is not the
  whole second: 1969-12-31 23:59:59.000000 and 23:59:59.500000 UTC lie in the same
  second, their timestamps \<open>-1.0\<close> and \<open>-0.5\<close> truncate to \<open>-1\<close> and \<open>0\<close>, the
  identifiers differ and both jobs stay in the store. Far after the epoch the float
  timestamp no longer resolves microseconds: 3000-01-01 00:00:00.000000 and
  00:00:00.999999 UTC lie in the same second, the second timestamp rounds up to the next
  whole number, and again both jobs stay.
\<close>

theorem C9_counterexample:
  "whole_second ex_env (Aware (- 1000000)) = Inr (- 1)
   \<and> whole_second ex_env (Aware (- 500000)) = Inr (- 1)
   \<and> jobs_after ex_env 0 (PyDatetime (Aware (- 500000))) ''hi''
        (jobs_after ex_env 0 (PyDatetime (Aware (- 1000000))) ''hi'' [])
       = [make_job ex_env (Aware (- 1000000)) (- 1) ''hi'',
          make_job ex_env (Aware (- 500000)) 0 ''hi'']
   \<and> make_job_id ex_env (- 1) ''hi'' = ''linkedin_post_-1_2''
   \<and> make_job_id ex_env 0 ''hi'' = ''linkedin_post_0_2''
   \<and> whole_second ex_env (Aware 32503680000000000) = Inr 32503680000
   \<and> whole_second ex_env (Aware 32503680000999999) = Inr 32503680000
   \<and> jobs_after ex_env 0 (PyDatetime (Aware 32503680000999999)) ''hi''
        (jobs_after ex_env 0 (PyDatetime (Aware 32503680000000000)) ''hi'' [])
       = [make_job ex_env (Aware 32503680000000000) 32503680000 ''hi'',
          make_job ex_env (Aware 32503680000999999) 32503680001 ''hi'']
   \<and> make_job_id ex_env 32503680000 ''hi'' \<noteq> make_job_id ex_env 32503680001 ''hi''"
proof -
  have a: "make_job_id ex_env (- 1) ''hi'' = ''linkedin_post_-1_2''"
    and b: "make_job_id ex_env 0 ''hi'' = ''linkedin_post_0_2''"
    by (simp_all add: make_job_id_def ex_env_def str_int_small)
  have "str_nat 32503680000 \<noteq> str_nat 32503680001"
    by (subst str_nat.simps, subst (2) str_nat.simps) (simp add: digit_char_def)
  then have c: "make_job_id ex_env 32503680000 ''hi'' \<noteq> make_job_id ex_env 32503680001 ''hi''"
    by (simp add: make_job_id_def str_int_def)
  show ?thesis
    by (simp add: whole_second_def jobs_after_datetime ex_timestamp_before_epoch
        ex_timestamp_3000 add_job_def a b c)
qed

text \<open>
  C9, amended. For two datetimes that lie in the same whole second, at or after the epoch
  and less than \<open>2^34\<close> seconds after it (before the year 2514), and that the scheduler
  reads as different instants, and the same text, the timestamps truncate to that second,
  so the derived identifiers are equal, and after both submissions the store holds under
  that identifier only the second job, with the second run date; the first job is gone.
\<close>

theorem C9_same_second_replaces:
  assumes "whole_second env d1 = Inr S" and "whole_second env d2 = Inr S"
    and "0 \<le> S" and "S + 1 < float_exact_limit"
    and "run_instant d1 \<noteq> run_instant d2"
  shows "int_timestamp env d1 = Inr S \<and> int_timestamp env d2 = Inr S
       \<and> filter (\<lambda>k. job_id k = make_job_id env S text_content)
           (jobs_after env now' (PyDatetime d2) text_content
              (jobs_after env now (PyDatetime d1) text_content jobs))
          = [make_job env d2 S text_content]
       \<and> run_date (make_job env d2 S text_content) = run_instant d2
       \<and> make_job env d1 S text_content
           \<notin> set (jobs_after env now' (PyDatetime d2) text_content
                    (jobs_after env now (PyDatetime d1) text_content jobs))"
proof -
  let ?j1 = "make_job env d1 S text_content" and ?j2 = "make_job env d2 S text_content"
  have t1: "int_timestamp env d1 = Inr S" and t2: "int_timestamp env d2 = Inr S"
    using assms(1-4) by (auto intro: int_timestamp_exact)
  have store: "jobs_after env now' (PyDatetime d2) text_content
                 (jobs_after env now (PyDatetime d1) text_content jobs) = add_job ?j2 jobs"
    by (simp add: jobs_after_datetime [OF t1] jobs_after_datetime [OF t2] add_job_same_id)
  have one: "filter (\<lambda>k. job_id k = make_job_id env S text_content) (add_job ?j2 jobs) = [?j2]"
    using add_job_one [of ?j2 jobs] by simp
  have differ: "?j1 \<noteq> ?j2"
  proof
    assume "?j1 = ?j2"
    then have "run_date ?j1 = run_date ?j2" by simp
    with assms(5) show False by (simp add: make_job_def)
  qed
  have "?j1 \<notin> set (add_job ?j2 jobs)"
  proof
    assume m: "?j1 \<in> set (add_job ?j2 jobs)"
    have "job_id ?j1 = make_job_id env S text_content" by simp
    with m have "?j1 \<in> set (filter (\<lambda>k. job_id k = make_job_id env S text_content)
                              (add_job ?j2 jobs))"
      by simp
    with one differ show False by simp
  qed
  with t1 t2 store one show ?thesis by (simp add: make_job_def)
qed

text \<open>
  C9 at concrete inputs: the aware datetimes 60.0 s and 60.5 s after the epoch, and the
  naive calendar readings 60.000000 s and 60.999999 s.
\<close>

theorem C9_witness:
  "whole_second ex_env (Aware 60000000) = Inr 60
   \<and> whole_second ex_env (Aware 60500000) = Inr 60
   \<and> (0::int) \<le> 60 \<and> (60::int) + 1 < float_exact_limit
   \<and> run_instant (Aware 60000000) \<noteq> run_instant (Aware 60500000)
   \<and> int_timestamp ex_env (Aware 60000000) = Inr 60
   \<and> int_timestamp ex_env (Aware 60500000) = Inr 60
   \<and> filter (\<lambda>k. job_id k = make_job_id ex_env 60 ''hi'')
        (jobs_after ex_env 0 (PyDatetime (Aware 60500000)) ''hi''
           (jobs_after ex_env 0 (PyDatetime (Aware 60000000)) ''hi'' []))
       = [make_job ex_env (Aware 60500000) 60 ''hi'']
   \<and> make_job ex_env (Aware 60000000) 60 ''hi''
       \<notin> set (jobs_after ex_env 0 (PyDatetime (Aware 60500000)) ''hi''
                (jobs_after ex_env 0 (PyDatetime (Aware 60000000)) ''hi'' []))
   \<and> whole_second ex_env (Naive 60000000) = Inr 60
   \<and> whole_second ex_env (Naive 60999999) = Inr 60
   \<and> run_instant (Naive 60000000) \<noteq> run_instant (Naive 60999999)
   \<and> int_timestamp ex_env (Naive 60999999) = Inr 60
   \<and> filter (\<lambda>k. job_id k = make_job_id ex_env 60 ''hi'')
        (jobs_after ex_env 0 (PyDatetime (Naive 60999999)) ''hi''
           (jobs_after ex_env 0 (PyDatetime (Naive 60000000)) ''hi'' []))
       = [make_job ex_env (Naive 60999999) 60 ''hi'']"
proof -
  have h: "whole_second ex_env (Aware 60000000) = Inr 60"
    "whole_second ex_env (Aware 60500000) = Inr 60"
    "(0::int) \<le> 60" "(60::int) + 1 < float_exact_limit"
    "run_instant (Aware 60000000) \<noteq> run_instant (Aware 60500000)"
    by (simp_all add: whole_second_def float_exact_limit_def)
  have n: "whole_second ex_env (Naive 60000000) = Inr 60"
    "whole_second ex_env (Naive 60999999) = Inr 60"
    "(0::int) \<le> 60" "(60::int) + 1 < float_exact_limit"
    "run_instant (Naive 60000000) \<noteq> run_instant (Naive 60999999)"
    by (simp_all add: whole_second_def float_exact_limit_def ex_env_def)
  from C9_same_second_replaces [OF h, of "''hi''" 0 0 "[]"]
    C9_same_second_replaces [OF n, of "''hi''" 0 0 "[]"] h n
  show ?thesis by blast
qed

end
